theory Spec2Isabelle
  imports Complex_Main
begin

section \<open>JavaScript values used by app.js\<close>

text \<open>
  A JavaScript string is a sequence of UTF-16 code units; a code unit is modelled by its
  number. \<open>js\<close> turns an ASCII literal into such a string.
\<close>

type_synonym jsstring = "nat list"

definition js :: "string \<Rightarrow> jsstring" where
  "js s = map of_char s"

text \<open>
  The white space and line terminator code units of ECMAScript: what \<open>String.prototype.trim\<close>
  strips, what \<open>\s\<close> matches in a regular expression, and what \<open>parseInt\<close> and
  \<open>parseFloat\<close> skip in front of a number.
\<close>

definition is_ws :: "nat \<Rightarrow> bool" where
  "is_ws c \<longleftrightarrow>
     c = 0x09 \<or> c = 0x0A \<or> c = 0x0B \<or> c = 0x0C \<or> c = 0x0D \<or> c = 0x20 \<or> c = 0xA0
     \<or> c = 0x1680 \<or> (0x2000 \<le> c \<and> c \<le> 0x200A) \<or> c = 0x2028 \<or> c = 0x2029
     \<or> c = 0x202F \<or> c = 0x205F \<or> c = 0x3000 \<or> c = 0xFEFF"

text \<open>\<open>\d\<close> and the digits of a decimal literal: the ASCII digits only.\<close>

definition is_digit :: "nat \<Rightarrow> bool" where
  "is_digit c \<longleftrightarrow> 0x30 \<le> c \<and> c \<le> 0x39"

text \<open>
  A JavaScript number, as far as the program distinguishes them: not-a-number, the two
  infinities, or a finite value. Finite values are kept exact; the engine rounds a parsed
  decimal to the nearest double, and so does it round the literal it is compared with.
  The two zeros are one value here: no comparison of the program tells them apart.
\<close>

datatype jsnum = NaN | PosInf | NegInf | Num rat

text \<open>\<open>x >= k\<close> for a number \<open>x\<close> and a finite constant \<open>k\<close>: false when \<open>x\<close> is NaN.\<close>

fun js_ge :: "jsnum \<Rightarrow> rat \<Rightarrow> bool" where
  "js_ge NaN k = False"
| "js_ge PosInf k = True"
| "js_ge NegInf k = False"
| "js_ge (Num x) k = (k \<le> x)"

text \<open>Reading an array element: \<open>None\<close> is \<open>undefined\<close>, the value of a read out of range.\<close>

definition idx :: "'a list \<Rightarrow> nat \<Rightarrow> 'a option" where
  "idx xs i = (if i < length xs then Some (xs ! i) else None)"

text \<open>\<open>ToString\<close> of a string or \<open>undefined\<close>, as string concatenation and the parsers apply it.\<close>

definition to_string :: "jsstring option \<Rightarrow> jsstring" where
  "to_string v = (case v of None \<Rightarrow> js ''undefined'' | Some s \<Rightarrow> s)"

subsection \<open>String operations\<close>

definition trim :: "jsstring \<Rightarrow> jsstring" where
  "trim s = rev (dropWhile is_ws (rev (dropWhile is_ws s)))"

text \<open>
  \<open>s.split('\n')\<close>: cuts at every line feed; the pieces between two cuts, before the first
  and after the last are all kept, empty or not.
\<close>

fun split_lines :: "jsstring \<Rightarrow> jsstring list" where
  "split_lines [] = [[]]"
| "split_lines (c # cs) =
     (if c = 0x0A then [] # split_lines cs
      else (case split_lines cs of
              [] \<Rightarrow> [[c]]
            | t # ts \<Rightarrow> (c # t) # ts))"

text \<open>
  \<open>s.split(/\s+/)\<close>: cuts at every maximal run of white space; a run at the very start or
  end leaves an empty piece there.
\<close>

function split_ws :: "jsstring \<Rightarrow> jsstring list" where
  "split_ws [] = [[]]"
| "split_ws (c # cs) =
     (if is_ws c then [] # split_ws (dropWhile is_ws cs)
      else (case split_ws cs of
              [] \<Rightarrow> [[c]]
            | t # ts \<Rightarrow> (c # t) # ts))"
  by pat_completeness auto
termination
  by (relation "measure length") (auto simp: length_dropWhile_le less_Suc_eq_le)

text \<open>\<open>s.match(/^\d{4}/)\<close> is not null: the first four code units are digits.\<close>

fun starts_with_year :: "jsstring \<Rightarrow> bool" where
  "starts_with_year (a # b # c # d # _) = (is_digit a \<and> is_digit b \<and> is_digit c \<and> is_digit d)"
| "starts_with_year _ = False"

subsection \<open>Number parsing\<close>

text \<open>The value of a run of decimal digits, most significant first.\<close>

definition digits_value :: "jsstring \<Rightarrow> int" where
  "digits_value ds = foldl (\<lambda>acc d. 10 * acc + (int d - 0x30)) 0 ds"

text \<open>An optional sign in front of a numeral: the factor it stands for and the rest.\<close>

fun take_sign :: "jsstring \<Rightarrow> int \<times> jsstring" where
  "take_sign [] = (1, [])"
| "take_sign (c # cs) =
     (if c = 0x2D then (-1, cs) else if c = 0x2B then (1, cs) else (1, c # cs))"

text \<open>
  \<open>parseInt(s, 10)\<close>: leading white space is skipped, a sign is read, then the longest run
  of decimal digits; no digit at all gives NaN. Whatever follows the digits is ignored.
\<close>

definition parseInt :: "jsstring \<Rightarrow> jsnum" where
  "parseInt s =
     (let (sgn, r) = take_sign (dropWhile is_ws s);
          ds = takeWhile is_digit r
      in if ds = [] then NaN else Num (of_int (sgn * digits_value ds)))"

text \<open>A power of ten with an integer exponent.\<close>

definition pow10 :: "int \<Rightarrow> rat" where
  "pow10 e = (if 0 \<le> e then 10 ^ nat e else 1 / 10 ^ nat (- e))"

text \<open>
  \<open>parseFloat(s)\<close>: leading white space is skipped, then the longest prefix that is a
  decimal literal is read: a sign, then \<open>Infinity\<close>, or digits with an optional fraction
  and an optional exponent (an exponent mark without digits is not part of the literal).
  No literal gives NaN.
\<close>

definition parseFloat :: "jsstring \<Rightarrow> jsnum" where
  "parseFloat s =
     (let (sgn, r) = take_sign (dropWhile is_ws s)
      in if take 8 r = js ''Infinity'' then (if sgn < 0 then NegInf else PosInf)
         else
           let ip = takeWhile is_digit r;
               r1 = dropWhile is_digit r;
               has_dot = (r1 \<noteq> [] \<and> hd r1 = 0x2E);
               fp = (if has_dot then takeWhile is_digit (tl r1) else []);
               r2 = (if has_dot then dropWhile is_digit (tl r1) else r1);
               has_exp = (r2 \<noteq> [] \<and> (hd r2 = 0x65 \<or> hd r2 = 0x45));
               (esgn, r3) = (if has_exp then take_sign (tl r2) else (1, []));
               ed = takeWhile is_digit r3;
               e = (if ed = [] then 0 else esgn * digits_value ed)
           in if ip = [] \<and> fp = [] then NaN
              else Num (of_int sgn
                        * (of_int (digits_value ip) + of_int (digits_value fp) * pow10 (- int (length fp)))
                        * pow10 e))"

section \<open>Severity colours\<close>

definition storm_color :: jsstring where "storm_color = js ''#ff3333''"
definition active_color :: jsstring where "active_color = js ''#ffcc00''"
definition quiet_color :: jsstring where "quiet_color = js ''#39ff14''"

definition getKpColor :: "jsnum \<Rightarrow> jsstring" where
  "getKpColor kp =
     (if js_ge kp 5 then storm_color
      else if js_ge kp 4 then active_color
      else quiet_color)"

section \<open>Chart series\<close>

record chartSeries =
  labels :: "jsstring list"
  dataPoints :: "jsnum list"

definition emptySeries :: chartSeries where
  "emptySeries = \<lparr>labels = [], dataPoints = []\<rparr>"

text \<open>\<open>labels.push(l); dataPoints.push(v)\<close>.\<close>

definition push_pair :: "chartSeries \<Rightarrow> jsstring \<Rightarrow> jsnum \<Rightarrow> chartSeries" where
  "push_pair acc l v = \<lparr>labels = labels acc @ [l], dataPoints = dataPoints acc @ [v]\<rparr>"

text \<open>The invariant of a series: as many labels as points.\<close>

definition balanced :: "chartSeries \<Rightarrow> bool" where
  "balanced s \<longleftrightarrow> length (labels s) = length (dataPoints s)"

section \<open>The 27-day parser\<close>

text \<open>
  The callback of \<open>lines.forEach\<close> in \<open>fetch27DayForecast\<close>, as a function from the two
  arrays before the line to the two arrays after it. The elements 1, 2 and 5 of \<open>parts\<close> are
  read only where \<open>parts.length >= 6\<close> has been checked.
\<close>

definition lineStep :: "chartSeries \<Rightarrow> jsstring \<Rightarrow> chartSeries" where
  "lineStep acc line =
     (let trimmed = trim line
      in if \<not> starts_with_year trimmed then acc
         else
           let parts = split_ws trimmed
           in if 6 \<le> length parts
              then
                let dateLabel = (parts ! 1) @ js '' '' @ (parts ! 2);
                    kp = parseInt (parts ! 5)
                in push_pair acc dateLabel kp
              else acc)"

text \<open>The part of \<open>fetch27DayForecast\<close> between the response text and the returned object.\<close>

definition parse27DayText :: "jsstring \<Rightarrow> chartSeries" where
  "parse27DayText textData = foldl lineStep emptySeries (split_lines textData)"

section \<open>The host: dates and their formatting\<close>

text \<open>
  \<open>process3DayData\<close> calls two services of the JavaScript host, which are parameters here:
  \<^item> \<open>Date_parse s\<close> is the time value of \<open>new Date(s)\<close> in milliseconds since the epoch,
    \<open>None\<close> for an Invalid Date;
  \<^item> \<open>DateTimeFormat tz\<close> is \<open>new Intl.DateTimeFormat('en-US', options)\<close> with the
    options of the source (short month, numeric day, two-digit hour and minute, \<open>hour12:
    false\<close>) and \<open>timeZone: tz\<close>: \<open>None\<close> when the constructor throws a RangeError (a
    zone the host does not know), otherwise what \<open>formatToParts\<close> returns for a time value.
\<close>

record part =
  part_type :: jsstring
  part_value :: jsstring

record host =
  Date_parse :: "jsstring \<Rightarrow> int option"
  DateTimeFormat :: "jsstring \<Rightarrow> (int \<Rightarrow> part list) option"

datatype exn = RangeError | TypeError | SyntaxError | Error jsstring

text \<open>
  \<open>parts.find(p => p.type === ty).value\<close>: \<open>find\<close> gives \<open>undefined\<close> when no part has
  the type, and reading \<open>.value\<close> of it throws a TypeError.
\<close>

definition find_part :: "part list \<Rightarrow> jsstring \<Rightarrow> exn + jsstring" where
  "find_part parts ty =
     (case find (\<lambda>p. part_type p = ty) parts of
        None \<Rightarrow> Inl TypeError
      | Some p \<Rightarrow> Inr (part_value p))"

text \<open>Sequencing of steps that may throw.\<close>

definition bind_exn :: "exn + 'a \<Rightarrow> ('a \<Rightarrow> exn + 'b) \<Rightarrow> exn + 'b" where
  "bind_exn r f = (case r of Inl e \<Rightarrow> Inl e | Inr x \<Rightarrow> f x)"

text \<open>A step returned a value: it did not throw.\<close>

definition returns :: "exn + 'a \<Rightarrow> bool" where
  "returns r = (case r of Inl e \<Rightarrow> False | Inr x \<Rightarrow> True)"

section \<open>The three-day parser\<close>

text \<open>
  A row of the feed: a JSON array whose elements 0, 1 and 2 are strings (time tag, Kp,
  status). The program reads no other element.
\<close>

type_synonym entry = "jsstring list"

text \<open>
  The label that the callback of \<open>rawData.forEach\<close> builds for one entry. The formatter is
  constructed first (RangeError for an unknown zone); \<open>formatToParts\<close> throws a RangeError
  on an Invalid Date.
\<close>

definition entryLabel :: "host \<Rightarrow> jsstring \<Rightarrow> entry \<Rightarrow> exn + jsstring" where
  "entryLabel H timezone entry =
     (let dateObj = Date_parse H (to_string (idx entry 0) @ js ''Z'')
      in case DateTimeFormat H timezone of
           None \<Rightarrow> Inl RangeError
         | Some formatter \<Rightarrow>
             (case dateObj of
                None \<Rightarrow> Inl RangeError
              | Some t \<Rightarrow>
                  (let parts = formatter t
                   in bind_exn (find_part parts (js ''month'')) (\<lambda>month.
                      bind_exn (find_part parts (js ''day'')) (\<lambda>day.
                      bind_exn (find_part parts (js ''hour'')) (\<lambda>hour.
                      bind_exn (find_part parts (js ''minute'')) (\<lambda>minute.
                        Inr (month @ js '' '' @ day @ js ''\<newline>'' @ hour @ js '':'' @ minute))))))))"

definition entryPoint :: "entry \<Rightarrow> jsnum" where
  "entryPoint entry = parseFloat (to_string (idx entry 1))"

text \<open>\<open>rawData.forEach\<close>: an exception in the callback leaves the loop and the function.\<close>

fun forEachEntry :: "host \<Rightarrow> jsstring \<Rightarrow> chartSeries \<Rightarrow> entry list \<Rightarrow> exn + chartSeries" where
  "forEachEntry H timezone acc [] = Inr acc"
| "forEachEntry H timezone acc (entry # rest) =
     (case entryLabel H timezone entry of
        Inl e \<Rightarrow> Inl e
      | Inr l \<Rightarrow> forEachEntry H timezone (push_pair acc l (entryPoint entry)) rest)"

text \<open>
  \<open>process3DayData(rawData, timezone)\<close>. The argument \<open>None\<close> is \<open>null\<close> or \<open>undefined\<close>;
  an array, also the empty one, is truthy. The result \<open>Inr None\<close> is the returned \<open>null\<close>,
  \<open>Inl e\<close> a thrown exception.
\<close>

definition process3DayData :: "host \<Rightarrow> entry list option \<Rightarrow> jsstring \<Rightarrow> exn + chartSeries option" where
  "process3DayData H rawData timezone =
     (case rawData of
        None \<Rightarrow> Inr None
      | Some entries \<Rightarrow>
          (case forEachEntry H timezone emptySeries entries of
             Inl e \<Rightarrow> Inl e
           | Inr s \<Rightarrow> Inr (Some s)))"

section \<open>The controller\<close>

datatype mode = ThreeDay | TwentySevenDay

text \<open>The fields of the Chart.js object that \<open>updateChart\<close> writes, and its \<open>update()\<close> calls.\<close>

record chart =
  chart_labels :: "jsstring list"
  chart_data :: "jsnum list"
  backgroundColor :: "jsstring list"
  updates :: nat

text \<open>
  The global variables of app.js, with what \<open>showError\<close> displays: the message is a prefix
  followed by the message of the exception.
\<close>

record controller =
  the_chart :: chart
  raw3DayData :: "entry list option"
  threeDayData :: "chartSeries option"
  twentySevenDayData :: "chartSeries option"
  currentMode :: mode
  currentTimezone :: jsstring
  errorShown :: "(jsstring \<times> exn) option"
  loadingShown :: bool

definition showError :: "jsstring \<Rightarrow> exn \<Rightarrow> controller \<Rightarrow> controller" where
  "showError prefix err st = st\<lparr>errorShown := Some (prefix, err), loadingShown := False\<rparr>"

definition updateChart :: "chartSeries option \<Rightarrow> chart \<Rightarrow> chart" where
  "updateChart data c =
     (case data of
        None \<Rightarrow> c
      | Some d \<Rightarrow>
          \<lparr>chart_labels = labels d, chart_data = dataPoints d,
           backgroundColor = map getKpColor (dataPoints d), updates = updates c + 1\<rparr>)"

text \<open>
  What a fetch gives: the promise rejects, or there is a response with its \<open>ok\<close> flag and
  the outcome of decoding its body.
\<close>

datatype 'a response = Rejected exn | Response bool "exn + 'a"

text \<open>
  The loop of \<open>fetch3DayForecast\<close> over the rows from index \<open>i\<close> on: row 0 is the header,
  a row whose element 2 is \<open>observed\<close> is not stored.
\<close>

function retainLoop :: "entry list \<Rightarrow> nat \<Rightarrow> entry list \<Rightarrow> entry list" where
  "retainLoop rawData i acc =
     (if i < length rawData
      then retainLoop rawData (i + 1)
             (if idx (rawData ! i) 2 \<noteq> Some (js ''observed'') then acc @ [rawData ! i] else acc)
      else acc)"
  by pat_completeness auto
termination
  by (relation "measure (\<lambda>(rawData, i, acc). length rawData - i)") auto

declare retainLoop.simps [simp del]

text \<open>
  \<open>fetch3DayForecast\<close> from the settled fetch on: the new globals and the returned value.
  The \<open>catch\<close> block shows the error and returns \<open>null\<close>; \<open>raw3DayData\<close> keeps what the
  loop stored.
\<close>

definition fetch3DayForecast ::
  "host \<Rightarrow> controller \<Rightarrow> entry list response \<Rightarrow> controller \<times> chartSeries option" where
  "fetch3DayForecast H st resp =
     (let catch = (\<lambda>st' err. (showError (js ''Error fetching 3-Day Forecast: '') err st', None))
      in case resp of
           Rejected err \<Rightarrow> catch st err
         | Response ok body \<Rightarrow>
             if \<not> ok then catch st (Error (js ''Failed to load 3-day forecast''))
             else
               (case body of
                  Inl err \<Rightarrow> catch st err
                | Inr rawData \<Rightarrow>
                    (let st1 = st\<lparr>raw3DayData := Some (retainLoop rawData 1 [])\<rparr>
                     in case process3DayData H (raw3DayData st1) (currentTimezone st1) of
                          Inl err \<Rightarrow> catch st1 err
                        | Inr r \<Rightarrow> (st1, r))))"

definition fetch27DayForecast ::
  "controller \<Rightarrow> jsstring response \<Rightarrow> controller \<times> chartSeries option" where
  "fetch27DayForecast st resp =
     (let catch = (\<lambda>err. (showError (js ''Error fetching 27-Day Forecast: '') err st, None))
      in case resp of
           Rejected err \<Rightarrow> catch err
         | Response ok body \<Rightarrow>
             if \<not> ok then catch (Error (js ''Failed to load 27-day forecast''))
             else
               (case body of
                  Inl err \<Rightarrow> catch err
                | Inr textData \<Rightarrow> (st, Some (parse27DayText textData))))"

text \<open>
  The \<open>change\<close> listener of the timezone selector, called with \<open>e.target.value\<close>: the
  globals after it, and the exception it leaves with, if any.
\<close>

definition timezoneChange :: "host \<Rightarrow> jsstring \<Rightarrow> controller \<Rightarrow> controller \<times> exn option" where
  "timezoneChange H v st =
     (let st1 = st\<lparr>currentTimezone := v\<rparr>
      in case raw3DayData st1 of
           None \<Rightarrow> (st1, None)
         | Some raw \<Rightarrow>
             (case process3DayData H (Some raw) (currentTimezone st1) of
                Inl err \<Rightarrow> (st1, Some err)
              | Inr d \<Rightarrow>
                  (let st2 = st1\<lparr>threeDayData := d\<rparr>
                   in if currentMode st2 = ThreeDay
                      then (st2\<lparr>the_chart := updateChart (threeDayData st2) (the_chart st2)\<rparr>, None)
                      else (st2, None))))"

section \<open>A host for the examples\<close>

text \<open>
  The theorems below hold for every host. Where an example needs one, this host is used:
  its \<open>Date\<close> reads the time tags of the feed (\<open>YYYY-MM-DD HH:MM:SS\<close> followed by
  \<open>Z\<close>) and nothing else, it knows a few zones, each at a fixed offset from UTC in
  minutes, and it writes the hours of a day as 00 to 23.
\<close>

definition days_from_civil :: "int \<Rightarrow> int \<Rightarrow> int \<Rightarrow> int" where
  "days_from_civil y m d =
     (let y' = (if m \<le> 2 then y - 1 else y);
          era = y' div 400;
          yoe = y' - era * 400;
          mp = (m + 9) mod 12;
          doy = (153 * mp + 2) div 5 + d - 1;
          doe = yoe * 365 + yoe div 4 - yoe div 100 + doy
      in era * 146097 + doe - 719468)"

definition civil_from_days :: "int \<Rightarrow> int \<times> int \<times> int" where
  "civil_from_days n =
     (let z = n + 719468;
          era = z div 146097;
          doe = z - era * 146097;
          yoe = (doe - doe div 1460 + doe div 36524 - doe div 146096) div 365;
          doy = doe - (365 * yoe + yoe div 4 - yoe div 100);
          mp = (5 * doy + 2) div 153;
          d = doy - (153 * mp + 2) div 5 + 1;
          m = (if mp < 10 then mp + 3 else mp - 9);
          y = yoe + era * 400 + (if m \<le> 2 then 1 else 0)
      in (y, m, d))"

definition days_in_month :: "int \<Rightarrow> int \<Rightarrow> int" where
  "days_in_month y m =
     (if m = 2 then (if y mod 4 = 0 \<and> (y mod 100 \<noteq> 0 \<or> y mod 400 = 0) then 29 else 28)
      else if m = 4 \<or> m = 6 \<or> m = 9 \<or> m = 11 then 30
      else 31)"

text \<open>The digits of \<open>s\<close> from position \<open>i\<close>, \<open>n\<close> of them; \<open>None\<close> if one is not a digit.\<close>

definition field :: "jsstring \<Rightarrow> nat \<Rightarrow> nat \<Rightarrow> int option" where
  "field s i n =
     (let ds = take n (drop i s)
      in if length ds = n \<and> list_all is_digit ds then Some (digits_value ds) else None)"

definition ref_Date_parse :: "jsstring \<Rightarrow> int option" where
  "ref_Date_parse s =
     (case (field s 0 4, field s 5 2, field s 8 2, field s 11 2, field s 14 2, field s 17 2) of
        (Some y, Some mo, Some d, Some h, Some mi, Some se) \<Rightarrow>
          if length s = 20 \<and> s ! 4 = 0x2D \<and> s ! 7 = 0x2D \<and> s ! 10 = 0x20
             \<and> s ! 13 = 0x3A \<and> s ! 16 = 0x3A \<and> s ! 19 = 0x5A
             \<and> 1 \<le> mo \<and> mo \<le> 12 \<and> 1 \<le> d \<and> d \<le> days_in_month y mo
             \<and> h < 24 \<and> mi < 60 \<and> se < 60
          then Some ((((days_from_civil y mo d * 24 + h) * 60 + mi) * 60 + se) * 1000)
          else None
      | _ \<Rightarrow> None)"

definition ref_zones :: "(jsstring \<times> int) list" where
  "ref_zones =
     [(js ''UTC'', 0), (js ''Asia/Tokyo'', 540), (js ''Asia/Kolkata'', 330),
      (js ''America/Phoenix'', - 420)]"

definition month_names :: "jsstring list" where
  "month_names =
     map js [''Jan'', ''Feb'', ''Mar'', ''Apr'', ''May'', ''Jun'',
             ''Jul'', ''Aug'', ''Sep'', ''Oct'', ''Nov'', ''Dec'']"

definition two_digits :: "int \<Rightarrow> jsstring" where
  "two_digits n = [nat (0x30 + n div 10), nat (0x30 + n mod 10)]"

definition numeric :: "int \<Rightarrow> jsstring" where
  "numeric n = (if n < 10 then [nat (0x30 + n)] else two_digits n)"

definition ref_formatToParts :: "int \<Rightarrow> int \<Rightarrow> part list" where
  "ref_formatToParts offset t =
     (let local = t + offset * 60000;
          ms = local mod 86400000;
          (y, m, d) = civil_from_days (local div 86400000)
      in [\<lparr>part_type = js ''month'', part_value = month_names ! nat (m - 1)\<rparr>,
          \<lparr>part_type = js ''literal'', part_value = js '' ''\<rparr>,
          \<lparr>part_type = js ''day'', part_value = numeric d\<rparr>,
          \<lparr>part_type = js ''literal'', part_value = js '', ''\<rparr>,
          \<lparr>part_type = js ''hour'', part_value = two_digits (ms div 3600000)\<rparr>,
          \<lparr>part_type = js ''literal'', part_value = js '':''\<rparr>,
          \<lparr>part_type = js ''minute'', part_value = two_digits (ms div 60000 mod 60)\<rparr>])"

definition ref_host :: host where
  "ref_host =
     \<lparr>Date_parse = ref_Date_parse,
      DateTimeFormat = (\<lambda>tz. map_option ref_formatToParts (map_of ref_zones tz))\<rparr>"

section \<open>Sample data\<close>

text \<open>Rows as the three-day feed has them: the header, then one row of each status.\<close>

definition sample_header :: entry where
  "sample_header = [js ''time_tag'', js ''kp'', js ''observed'', js ''noaa_scale'']"

definition sample_observed :: entry where
  "sample_observed = [js ''2024-12-31 21:00:00'', js ''2.67'', js ''observed'']"

definition sample_estimated :: entry where
  "sample_estimated = [js ''2025-01-01 00:00:00'', js ''3.33'', js ''estimated'']"

definition sample_predicted :: entry where
  "sample_predicted = [js ''2025-01-01 03:00:00'', js ''4.00'', js ''predicted'']"

definition sample_feed :: "entry list" where
  "sample_feed = [sample_header, sample_observed, sample_estimated, sample_predicted]"

text \<open>
  The globals as lines 10 to 15 declare them, with the chart that \<open>initChart\<close> builds and
  the loading indicator that \<open>loadData\<close> has switched on: the state in which the listeners
  are registered, before either fetch has settled.
\<close>

definition start_state :: controller where
  "start_state =
     \<lparr>the_chart = \<lparr>chart_labels = [], chart_data = [], backgroundColor = [], updates = 0\<rparr>,
      raw3DayData = None, threeDayData = None, twentySevenDayData = None,
      currentMode = ThreeDay, currentTimezone = js ''UTC'',
      errorShown = None, loadingShown = True\<rparr>"

text \<open>The globals once the sample feed has been fetched and drawn under UTC.\<close>

definition loaded_state :: controller where
  "loaded_state =
     start_state
       \<lparr>the_chart :=
          \<lparr>chart_labels = [js ''Jan 1\<newline>00:00'', js ''Jan 1\<newline>03:00''],
           chart_data = [Num 3.33, Num 4],
           backgroundColor = [quiet_color, active_color],
           updates = 1\<rparr>,
        raw3DayData := Some [sample_estimated, sample_predicted],
        threeDayData :=
          Some \<lparr>labels = [js ''Jan 1\<newline>00:00'', js ''Jan 1\<newline>03:00''],
                dataPoints = [Num 3.33, Num 4]\<rparr>,
        loadingShown := False\<rparr>"

text \<open>
  The rows of a feed that stand for a forecast: those after the header row whose status
  is not \<open>observed\<close>.
\<close>

definition non_observed_rows :: "entry list \<Rightarrow> entry list" where
  "non_observed_rows rawData = filter (\<lambda>e. idx e 2 \<noteq> Some (js ''observed'')) (drop 1 rawData)"

section \<open>Evaluating the string operations\<close>

lemmas string_eval = js_def is_ws_def is_digit_def

section \<open>Severity colour mapping\<close>

lemma colours_distinct:
  "storm_color \<noteq> active_color \<and> storm_color \<noteq> quiet_color \<and> active_color \<noteq> quiet_color"
  by (simp add: storm_color_def active_color_def quiet_color_def js_def)

text \<open>
  Claim C3. \<open>getKpColor\<close> is a total function of its number: a value of 5 or more gives the
  storm colour, a value from 4 up to but not including 5 the active colour, a value below 4
  the quiet colour; not-a-number fails both comparisons and gives the quiet colour. The
  infinities fall on the side their sign says.
\<close>

theorem getKpColor_tiers:
  "(5 \<le> x \<longrightarrow> getKpColor (Num x) = storm_color)
   \<and> (4 \<le> x \<and> x < 5 \<longrightarrow> getKpColor (Num x) = active_color)
   \<and> (x < 4 \<longrightarrow> getKpColor (Num x) = quiet_color)
   \<and> getKpColor NaN = quiet_color
   \<and> \<not> js_ge NaN 5 \<and> \<not> js_ge NaN 4
   \<and> getKpColor PosInf = storm_color
   \<and> getKpColor NegInf = quiet_color"
  by (simp add: getKpColor_def)

theorem getKpColor_tiers_witness:
  "(5::rat) \<le> 5 \<and> getKpColor (Num 5) = storm_color
   \<and> (4::rat) \<le> 9 / 2 \<and> (9::rat) / 2 < 5 \<and> getKpColor (Num (9 / 2)) = active_color
   \<and> (7::rat) / 2 < 4 \<and> getKpColor (Num (7 / 2)) = quiet_color"
  using getKpColor_tiers [of 5] getKpColor_tiers [of "9 / 2"] getKpColor_tiers [of "7 / 2"]
  by simp

section \<open>The three-day parser: absent and empty input\<close>

text \<open>
  Claim C8. Given no input (\<open>null\<close> or \<open>undefined\<close>), \<open>process3DayData\<close> returns \<open>null\<close>:
  it neither throws nor returns a series, whatever the host and the timezone.
\<close>

theorem process3DayData_no_input:
  "process3DayData H None timezone = Inr None"
  by (simp add: process3DayData_def)

text \<open>
  Claim C10. Given an array without entries, \<open>process3DayData\<close> returns the series with no
  label and no point, not \<open>null\<close>, for every timezone (no formatter is constructed, so also
  for a zone the host does not know).
\<close>

theorem process3DayData_empty_array:
  "process3DayData H (Some []) timezone = Inr (Some \<lparr>labels = [], dataPoints = []\<rparr>)"
  by (simp add: process3DayData_def emptySeries_def)

section \<open>The 27-day parser: which lines give a pair\<close>

lemma split_ws_not_Nil: "split_ws s \<noteq> []"
  by (induction s rule: split_ws.induct) (auto split: list.splits)

lemma split_ws_tokens_no_ws: "list_all (list_all (\<lambda>c. \<not> is_ws c)) (split_ws s)"
proof (induction s rule: split_ws.induct)
  case 1
  show ?case by simp
next
  case (2 d ds)
  show ?case
  proof (cases "is_ws d")
    case True
    with 2 show ?thesis by simp
  next
    case False
    with 2 show ?thesis
      by (cases "split_ws ds") simp_all
  qed
qed

lemma last_dropWhile_eq: "dropWhile P xs \<noteq> [] \<Longrightarrow> last (dropWhile P xs) = last xs"
  by (induction xs) auto

lemma hd_split_ws_empty: "hd (split_ws s) = [] \<longleftrightarrow> s = [] \<or> is_ws (hd s)"
proof (cases s)
  case Nil
  then show ?thesis by simp
next
  case (Cons d ds)
  then show ?thesis
    by (cases "split_ws ds") (auto simp: split_ws_not_Nil)
qed

lemma dropWhile_Nil_last: "dropWhile P xs = [] \<Longrightarrow> xs \<noteq> [] \<Longrightarrow> P (last xs)"
  by (simp add: dropWhile_eq_Nil_conv)

lemma tl_split_ws_empty:
  "[] \<in> set (tl (split_ws s)) \<Longrightarrow> s \<noteq> [] \<and> is_ws (last s)"
proof (induction s rule: split_ws.induct)
  case 1
  then show ?case by simp
next
  case (2 d ds)
  show ?case
  proof (cases "is_ws d")
    case True
    let ?r = "dropWhile is_ws ds"
    from 2(3) True have mem: "[] \<in> set (split_ws ?r)" by simp
    show ?thesis
    proof (cases "?r = []")
      case True
      with \<open>is_ws d\<close> show ?thesis
        by (cases "ds = []") (auto dest: dropWhile_Nil_last)
    next
      case False
      then have "\<not> is_ws (hd ?r)" by (simp add: hd_dropWhile)
      with False have "hd (split_ws ?r) \<noteq> []" by (simp add: hd_split_ws_empty)
      with mem have "[] \<in> set (tl (split_ws ?r))"
        by (cases "split_ws ?r") auto
      with 2(1) True have "is_ws (last ?r)" by simp
      with False have "is_ws (last ds)" by (simp add: last_dropWhile_eq)
      moreover from False have "ds \<noteq> []" by auto
      ultimately show ?thesis by simp
    qed
  next
    case False
    with 2(3) have "[] \<in> set (tl (split_ws ds))"
      by (cases "split_ws ds") (auto simp: split_ws_not_Nil)
    with 2(2) False have "ds \<noteq> [] \<and> is_ws (last ds)" by simp
    then show ?thesis by simp
  qed
qed

lemma split_ws_tokens_nonempty:
  assumes "s \<noteq> []" and "\<not> is_ws (hd s)" and "\<not> is_ws (last s)"
  shows "[] \<notin> set (split_ws s)"
proof
  assume "[] \<in> set (split_ws s)"
  then have "hd (split_ws s) = [] \<or> [] \<in> set (tl (split_ws s))"
    by (cases "split_ws s") auto
  with assms show False
    by (auto simp: hd_split_ws_empty dest: tl_split_ws_empty)
qed

lemma trim_ends:
  assumes "trim s \<noteq> []"
  shows "\<not> is_ws (hd (trim s)) \<and> \<not> is_ws (last (trim s))"
proof -
  let ?t = "dropWhile is_ws s"
  let ?u = "dropWhile is_ws (rev ?t)"
  from assms have u: "?u \<noteq> []" by (simp add: trim_def)
  have t: "?t \<noteq> []"
  proof
    assume "?t = []"
    with u show False by simp
  qed
  have "last (trim s) = hd ?u" using u by (simp add: trim_def last_rev)
  moreover have "\<not> is_ws (hd ?u)" using u by (simp add: hd_dropWhile)
  moreover have "hd (trim s) = last ?u" using u by (simp add: trim_def hd_rev)
  moreover have "last ?u = last (rev ?t)" using u by (rule last_dropWhile_eq)
  moreover have "last (rev ?t) = hd ?t" using t by (simp add: last_rev)
  moreover have "\<not> is_ws (hd ?t)" using t by (simp add: hd_dropWhile)
  ultimately show ?thesis by simp
qed

lemma starts_with_year_not_ws:
  "starts_with_year s \<Longrightarrow> s \<noteq> []"
  by (cases s) auto

lemma data_row_tokens:
  assumes "starts_with_year (trim line)" and "tok \<in> set (split_ws (trim line))"
  shows "tok \<noteq> [] \<and> list_all (\<lambda>c. \<not> is_ws c) tok"
proof -
  from assms(1) have ne: "trim line \<noteq> []" by (rule starts_with_year_not_ws)
  then have "[] \<notin> set (split_ws (trim line))"
    using trim_ends [of line] by (simp add: split_ws_tokens_nonempty)
  with assms(2) have "tok \<noteq> []" by auto
  moreover have "list_all (\<lambda>c. \<not> is_ws c) tok"
    using assms(2) split_ws_tokens_no_ws [of "trim line"] by (simp add: list_all_iff)
  ultimately show ?thesis by simp
qed


lemma foldl_lineStep_filter:
  "foldl lineStep acc ls = foldl lineStep acc (filter (\<lambda>l. starts_with_year (trim l)) ls)"
  by (induction ls arbitrary: acc) (simp_all add: lineStep_def)

lemma header_line_eval:
  "\<not> starts_with_year (trim (js ''Date        Flux   A    Kp''))"
  by (simp add: string_eval trim_def)

lemma sample_row_trim:
  "trim (js ''2025 Dec 29     185           5          2'') = js ''2025 Dec 29     185           5          2''"
  by (simp add: string_eval trim_def)

lemma sample_row_tokens:
  "split_ws (js ''2025 Dec 29     185           5          2'')
     = [js ''2025'', js ''Dec'', js ''29'', js ''185'', js ''5'', js ''2'']"
  by (simp add: string_eval)

lemma sample_row_year: "starts_with_year (js ''2025 Dec 29     185           5          2'')"
  by (simp add: string_eval)

lemma parseInt_2: "parseInt (js ''2'') = Num 2"
  by (simp add: parseInt_def string_eval digits_value_def)

lemma sample_row_step:
  "lineStep acc (js ''2025 Dec 29     185           5          2'')
     = \<lparr>labels = labels acc @ [js ''Dec 29''], dataPoints = dataPoints acc @ [Num 2]\<rparr>"
proof -
  have "js ''Dec'' @ js '' '' @ js ''29'' = js ''Dec 29''" by (simp add: js_def)
  then show ?thesis
    by (simp add: lineStep_def sample_row_trim sample_row_year sample_row_tokens parseInt_2
        push_pair_def)
qed

text \<open>
  Claim C4. In the 27-day parser a line gives a label and a point only if, once trimmed, it
  begins with four digits: a line that does not leaves both arrays as they are, however many
  tokens it has, and the whole result is that of the year lines alone. The header line
  \<open>Date        Flux   A    Kp\<close> gives no pair.
\<close>

theorem non_year_line_gives_no_pair:
  "(\<not> starts_with_year (trim line) \<longrightarrow> lineStep acc line = acc)
   \<and> (lineStep acc line \<noteq> acc \<longrightarrow> starts_with_year (trim line))
   \<and> lineStep acc (js ''Date        Flux   A    Kp'') = acc
   \<and> parse27DayText textData
       = foldl lineStep emptySeries
           (filter (\<lambda>l. starts_with_year (trim l)) (split_lines textData))"
proof -
  have a: "\<not> starts_with_year (trim line) \<longrightarrow> lineStep acc line = acc"
    by (simp add: lineStep_def)
  have b: "lineStep acc (js ''Date        Flux   A    Kp'') = acc"
    using header_line_eval by (simp add: lineStep_def)
  have c: "parse27DayText textData
       = foldl lineStep emptySeries
           (filter (\<lambda>l. starts_with_year (trim l)) (split_lines textData))"
    unfolding parse27DayText_def by (rule foldl_lineStep_filter)
  from a b c show ?thesis by blast
qed

theorem non_year_line_gives_no_pair_witness:
  "\<not> starts_with_year (trim (js ''Issued 2025 Dec 29 185 5 2''))
   \<and> 6 \<le> length (split_ws (trim (js ''Issued 2025 Dec 29 185 5 2'')))
   \<and> lineStep emptySeries (js ''Issued 2025 Dec 29 185 5 2'') = emptySeries
   \<and> lineStep emptySeries (js ''2025 Dec 29     185           5          2'') \<noteq> emptySeries
   \<and> starts_with_year (trim (js ''2025 Dec 29     185           5          2''))"
proof -
  have a: "\<not> starts_with_year (trim (js ''Issued 2025 Dec 29 185 5 2''))"
    by (simp add: string_eval trim_def)
  have b: "6 \<le> length (split_ws (trim (js ''Issued 2025 Dec 29 185 5 2'')))"
    by (simp add: string_eval trim_def)
  have c: "lineStep emptySeries (js ''2025 Dec 29     185           5          2'') \<noteq> emptySeries"
    by (simp add: sample_row_step emptySeries_def)
  from a b c
    non_year_line_gives_no_pair [of "js ''Issued 2025 Dec 29 185 5 2''" emptySeries]
    non_year_line_gives_no_pair [of "js ''2025 Dec 29     185           5          2''" emptySeries]
  show ?thesis by blast
qed

text \<open>
  Claim C5. A line that begins with four digits once trimmed is cut at its runs of white
  space into tokens, none empty and none with white space inside. With six tokens or more it
  adds exactly one pair: the label is token 1, a space and token 2, the point is token 5 read
  by \<open>parseInt\<close> in base 10. With fewer than six it adds nothing; nothing in the parser
  throws, so a decoded text always gives a series. The line
  \<open>2025 Dec 29     185           5          2\<close> adds the label \<open>Dec 29\<close> and the point 2.
\<close>

theorem data_row_gives_pair:
  assumes "starts_with_year (trim line)"
  shows "(6 \<le> length (split_ws (trim line)) \<longrightarrow>
            lineStep acc line
              = \<lparr>labels = labels acc @ [split_ws (trim line) ! 1 @ js '' '' @ split_ws (trim line) ! 2],
                 dataPoints = dataPoints acc @ [parseInt (split_ws (trim line) ! 5)]\<rparr>)
         \<and> (length (split_ws (trim line)) < 6 \<longrightarrow> lineStep acc line = acc)
         \<and> (\<forall>tok \<in> set (split_ws (trim line)). tok \<noteq> [] \<and> list_all (\<lambda>c. \<not> is_ws c) tok)
         \<and> lineStep acc (js ''2025 Dec 29     185           5          2'')
              = \<lparr>labels = labels acc @ [js ''Dec 29''], dataPoints = dataPoints acc @ [Num 2]\<rparr>
         \<and> fetch27DayForecast st (Response True (Inr textData)) = (st, Some (parse27DayText textData))"
proof -
  have a: "6 \<le> length (split_ws (trim line)) \<longrightarrow>
            lineStep acc line
              = \<lparr>labels = labels acc @ [split_ws (trim line) ! 1 @ js '' '' @ split_ws (trim line) ! 2],
                 dataPoints = dataPoints acc @ [parseInt (split_ws (trim line) ! 5)]\<rparr>"
    using assms by (simp add: lineStep_def push_pair_def Let_def)
  have b: "length (split_ws (trim line)) < 6 \<longrightarrow> lineStep acc line = acc"
    using assms by (simp add: lineStep_def)
  have c: "\<forall>tok \<in> set (split_ws (trim line)). tok \<noteq> [] \<and> list_all (\<lambda>c. \<not> is_ws c) tok"
    using assms data_row_tokens by blast
  have d: "fetch27DayForecast st (Response True (Inr textData)) = (st, Some (parse27DayText textData))"
    by (simp add: fetch27DayForecast_def)
  from a b c d sample_row_step show ?thesis by blast
qed

theorem data_row_gives_pair_witness:
  "starts_with_year (trim (js ''2025 Dec 29     185           5          2''))
   \<and> 6 \<le> length (split_ws (trim (js ''2025 Dec 29     185           5          2'')))
   \<and> lineStep emptySeries (js ''2025 Dec 29     185           5          2'')
        = \<lparr>labels = [js ''Dec 29''], dataPoints = [Num 2]\<rparr>
   \<and> starts_with_year (trim (js ''2025 Dec 30  185''))
   \<and> length (split_ws (trim (js ''2025 Dec 30  185''))) < 6
   \<and> lineStep emptySeries (js ''2025 Dec 30  185'') = emptySeries"
proof -
  have a: "starts_with_year (trim (js ''2025 Dec 29     185           5          2''))"
    by (simp add: sample_row_trim sample_row_year)
  have b: "6 \<le> length (split_ws (trim (js ''2025 Dec 29     185           5          2'')))"
    by (simp add: sample_row_trim sample_row_tokens)
  have c: "starts_with_year (trim (js ''2025 Dec 30  185''))"
    by (simp add: string_eval trim_def)
  have d: "length (split_ws (trim (js ''2025 Dec 30  185''))) < 6"
    by (simp add: string_eval trim_def)
  have e: "labels emptySeries = [] \<and> dataPoints emptySeries = []"
    by (simp add: emptySeries_def)
  from a b c d e
    data_row_gives_pair [of "js ''2025 Dec 29     185           5          2''" emptySeries]
    data_row_gives_pair [of "js ''2025 Dec 30  185''" emptySeries]
  show ?thesis by simp
qed
section \<open>Labels and points of a series\<close>

lemma balanced_empty: "balanced emptySeries"
  by (simp add: balanced_def emptySeries_def)

lemma balanced_push: "balanced acc \<Longrightarrow> balanced (push_pair acc l v)"
  by (simp add: balanced_def push_pair_def)

lemma balanced_lineStep: "balanced acc \<Longrightarrow> balanced (lineStep acc line)"
  by (simp add: lineStep_def Let_def balanced_push)

lemma balanced_foldl_lineStep: "balanced acc \<Longrightarrow> balanced (foldl lineStep acc ls)"
  by (induction ls arbitrary: acc) (simp_all add: balanced_lineStep)

lemma balanced_parse27DayText: "balanced (parse27DayText textData)"
  by (simp add: parse27DayText_def balanced_foldl_lineStep balanced_empty)

lemma balanced_forEachEntry:
  "forEachEntry H tz acc es = Inr s \<Longrightarrow> balanced acc \<Longrightarrow> balanced s"
proof (induction es arbitrary: acc)
  case Nil
  then show ?case by simp
next
  case (Cons e es)
  then show ?case
    by (auto split: sum.splits simp: balanced_push)
qed

lemma balanced_process3DayData:
  "process3DayData H rawData tz = Inr (Some s) \<Longrightarrow> balanced s"
  by (auto simp: process3DayData_def balanced_empty split: option.splits sum.splits
           dest: balanced_forEachEntry)

lemma fetch27_result:
  "snd (fetch27DayForecast st resp) = Some s \<Longrightarrow> \<exists>textData. s = parse27DayText textData"
  by (auto simp: fetch27DayForecast_def showError_def Let_def split: response.splits sum.splits if_splits)

lemma fetch3_result:
  "snd (fetch3DayForecast H st resp) = Some s \<Longrightarrow>
     \<exists>raw tz. process3DayData H raw tz = Inr (Some s)"
  by (auto simp: fetch3DayForecast_def showError_def Let_def split: response.splits sum.splits if_splits)

section \<open>The three-day parser: what it returns\<close>

lemma retainLoop_filter:
  "retainLoop rawData i acc
     = acc @ filter (\<lambda>e. idx e 2 \<noteq> Some (js ''observed'')) (drop i rawData)"
proof (induction rawData i acc rule: retainLoop.induct)
  case (1 rawData i acc)
  show ?case
  proof (cases "i < length rawData")
    case True
    then have d: "drop i rawData = rawData ! i # drop (i + 1) rawData"
      by (simp add: Cons_nth_drop_Suc)
    show ?thesis
      using True 1 [OF True] by (subst retainLoop.simps) (simp add: d)
  next
    case False
    then show ?thesis
      by (subst retainLoop.simps) simp
  qed
qed

lemma retainLoop_rows: "retainLoop rawData (Suc 0) [] = non_observed_rows rawData"
  by (simp add: retainLoop_filter non_observed_rows_def)

lemma forEachEntry_result:
  "forEachEntry H tz acc es = Inr s \<Longrightarrow>
     map Inr (labels s) = map Inr (labels acc) @ map (entryLabel H tz) es
     \<and> dataPoints s = dataPoints acc @ map entryPoint es"
proof (induction es arbitrary: acc)
  case Nil
  then show ?case by simp
next
  case (Cons e es)
  then obtain l where l: "entryLabel H tz e = Inr l"
    and rest: "forEachEntry H tz (push_pair acc l (entryPoint e)) es = Inr s"
    by (auto split: sum.splits)
  from Cons.IH [OF rest] l show ?case
    by (simp add: push_pair_def)
qed

lemma forEachEntry_returns:
  "\<forall>e \<in> set es. returns (entryLabel H tz e) \<Longrightarrow> \<exists>s. forEachEntry H tz acc es = Inr s"
proof (induction es arbitrary: acc)
  case Nil
  then show ?case by simp
next
  case (Cons e es)
  then obtain l where l: "entryLabel H tz e = Inr l"
    by (auto simp: returns_def split: sum.splits)
  from Cons have "\<exists>s. forEachEntry H tz (push_pair acc l (entryPoint e)) es = Inr s"
    by simp
  with l show ?case by simp
qed

lemma process3DayData_result:
  "process3DayData H (Some es) tz = Inr (Some s) \<Longrightarrow>
     map Inr (labels s) = map (entryLabel H tz) es \<and> dataPoints s = map entryPoint es"
  by (auto simp: process3DayData_def emptySeries_def split: sum.splits
           dest!: forEachEntry_result)

lemma process3DayData_returns:
  "\<forall>e \<in> set es. returns (entryLabel H tz e) \<Longrightarrow> \<exists>s. process3DayData H (Some es) tz = Inr (Some s)"
  using forEachEntry_returns [of es H tz emptySeries]
  by (auto simp: process3DayData_def)

lemma fetch3DayForecast_ok:
  "process3DayData H (Some (non_observed_rows rawData)) (currentTimezone st) = Inr (Some s) \<Longrightarrow>
     fetch3DayForecast H st (Response True (Inr rawData))
       = (st\<lparr>raw3DayData := Some (non_observed_rows rawData)\<rparr>, Some s)"
  by (simp add: fetch3DayForecast_def retainLoop_rows Let_def)

section \<open>The samples on the example host\<close>

lemma civil_sample: "civil_from_days 20089 = (2025, 1, 1)"
  by code_simp

lemma ref_entryLabel:
  assumes "ref_Date_parse (to_string (idx e 0) @ js ''Z'') = Some t"
    and "map_of ref_zones tz = Some off"
    and "civil_from_days ((t + off * 60000) div 86400000) = (y, m, d)"
  shows "entryLabel ref_host tz e
           = Inr (month_names ! nat (m - 1) @ js '' '' @ numeric d @ js ''\<newline>''
                  @ two_digits ((t + off * 60000) mod 86400000 div 3600000) @ js '':''
                  @ two_digits ((t + off * 60000) mod 86400000 div 60000 mod 60))"
  using assms
  by (simp add: entryLabel_def ref_host_def ref_formatToParts_def find_part_def bind_exn_def
      js_def Let_def)

lemma date_estimated:
  "ref_Date_parse (to_string (idx sample_estimated 0) @ js ''Z'') = Some 1735689600000"
  by (simp add: sample_estimated_def idx_def to_string_def ref_Date_parse_def field_def
      string_eval digits_value_def days_in_month_def days_from_civil_def)

lemma date_predicted:
  "ref_Date_parse (to_string (idx sample_predicted 0) @ js ''Z'') = Some 1735700400000"
  by (simp add: sample_predicted_def idx_def to_string_def ref_Date_parse_def field_def
      string_eval digits_value_def days_in_month_def days_from_civil_def)

lemma zone_utc: "map_of ref_zones (js ''UTC'') = Some 0"
  by (simp add: ref_zones_def js_def)

lemma zone_tokyo: "map_of ref_zones (js ''Asia/Tokyo'') = Some 540"
  by (simp add: ref_zones_def js_def)

lemma label_estimated_utc:
  "entryLabel ref_host (js ''UTC'') sample_estimated = Inr (js ''Jan 1\<newline>00:00'')"
proof -
  have "civil_from_days ((1735689600000 + 0 * 60000) div 86400000) = (2025, 1, 1)"
    using civil_sample by simp
  from ref_entryLabel [OF date_estimated zone_utc this] show ?thesis
    by (simp add: month_names_def numeric_def two_digits_def js_def)
qed

lemma label_predicted_utc:
  "entryLabel ref_host (js ''UTC'') sample_predicted = Inr (js ''Jan 1\<newline>03:00'')"
proof -
  have "civil_from_days ((1735700400000 + 0 * 60000) div 86400000) = (2025, 1, 1)"
    using civil_sample by simp
  from ref_entryLabel [OF date_predicted zone_utc this] show ?thesis
    by (simp add: month_names_def numeric_def two_digits_def js_def)
qed

lemma label_estimated_tokyo:
  "entryLabel ref_host (js ''Asia/Tokyo'') sample_estimated = Inr (js ''Jan 1\<newline>09:00'')"
proof -
  have "civil_from_days ((1735689600000 + 540 * 60000) div 86400000) = (2025, 1, 1)"
    using civil_sample by simp
  from ref_entryLabel [OF date_estimated zone_tokyo this] show ?thesis
    by (simp add: month_names_def numeric_def two_digits_def js_def)
qed

lemma label_predicted_tokyo:
  "entryLabel ref_host (js ''Asia/Tokyo'') sample_predicted = Inr (js ''Jan 1\<newline>12:00'')"
proof -
  have "civil_from_days ((1735700400000 + 540 * 60000) div 86400000) = (2025, 1, 1)"
    using civil_sample by simp
  from ref_entryLabel [OF date_predicted zone_tokyo this] show ?thesis
    by (simp add: month_names_def numeric_def two_digits_def js_def)
qed

lemma point_estimated: "entryPoint sample_estimated = Num 3.33"
  by (simp add: entryPoint_def sample_estimated_def idx_def to_string_def parseFloat_def
      string_eval digits_value_def pow10_def)

lemma point_predicted: "entryPoint sample_predicted = Num 4"
  by (simp add: entryPoint_def sample_predicted_def idx_def to_string_def parseFloat_def
      string_eval digits_value_def pow10_def)

lemma sample_rows: "non_observed_rows sample_feed = [sample_estimated, sample_predicted]"
  by (simp add: non_observed_rows_def sample_feed_def sample_observed_def sample_estimated_def
      sample_predicted_def idx_def js_def)

lemma series_from_maps:
  "map Inr (labels s) = [Inr a, Inr b] \<Longrightarrow> dataPoints s = [p, q] \<Longrightarrow>
     s = \<lparr>labels = [a, b], dataPoints = [p, q]\<rparr>"
  by (cases s) auto

lemma sample_tag: "to_string (idx [js ''2025-01-01 00:00:00'', js ''3.33'', js ''estimated''] 0) @ js ''Z'' = js ''2025-01-01 00:00:00Z''"
  by (simp add: idx_def to_string_def js_def)

lemma sample_date: "ref_Date_parse (js ''2025-01-01 00:00:00Z'') = Some 1735689600000"
  by (simp add: ref_Date_parse_def field_def string_eval digits_value_def days_in_month_def
      days_from_civil_def)

lemma sample_parts:
  "ref_formatToParts 0 1735689600000 =
     [\<lparr>part_type = js ''month'', part_value = js ''Jan''\<rparr>,
      \<lparr>part_type = js ''literal'', part_value = js '' ''\<rparr>,
      \<lparr>part_type = js ''day'', part_value = js ''1''\<rparr>,
      \<lparr>part_type = js ''literal'', part_value = js '', ''\<rparr>,
      \<lparr>part_type = js ''hour'', part_value = js ''00''\<rparr>,
      \<lparr>part_type = js ''literal'', part_value = js '':''\<rparr>,
      \<lparr>part_type = js ''minute'', part_value = js ''00''\<rparr>]"
  by (simp add: ref_formatToParts_def civil_sample month_names_def numeric_def
      two_digits_def js_def)

lemma sample_zone: "DateTimeFormat ref_host (js ''UTC'') = Some (ref_formatToParts 0)"
  by (simp add: ref_host_def ref_zones_def js_def)

lemma sample_find:
  "find_part (ref_formatToParts 0 1735689600000) (js ''month'') = Inr (js ''Jan'')"
  "find_part (ref_formatToParts 0 1735689600000) (js ''day'') = Inr (js ''1'')"
  "find_part (ref_formatToParts 0 1735689600000) (js ''hour'') = Inr (js ''00'')"
  "find_part (ref_formatToParts 0 1735689600000) (js ''minute'') = Inr (js ''00'')"
  by (simp_all add: sample_parts find_part_def js_def)

lemma parseFloat_sample: "parseFloat (js ''3.33'') = Num 3.33"
  by (simp add: parseFloat_def string_eval digits_value_def pow10_def)

lemma returns_Inr: "returns (Inr x)"
  by (simp add: returns_def)

lemma sample_rows_return:
  "\<forall>e \<in> set (non_observed_rows sample_feed). returns (entryLabel ref_host (js ''UTC'') e)"
  by (simp add: sample_rows label_estimated_utc label_predicted_utc returns_Inr)

lemma start_timezone: "currentTimezone start_state = js ''UTC''"
  by (simp add: start_state_def)

lemma sample_utc:
  "process3DayData ref_host (Some [sample_estimated, sample_predicted]) (js ''UTC'')
     = Inr (Some \<lparr>labels = [js ''Jan 1\<newline>00:00'', js ''Jan 1\<newline>03:00''],
                   dataPoints = [Num 3.33, Num 4]\<rparr>)"
  by (simp add: process3DayData_def emptySeries_def push_pair_def label_estimated_utc
      label_predicted_utc point_estimated point_predicted)

lemma sample_tokyo:
  "process3DayData ref_host (Some [sample_estimated, sample_predicted]) (js ''Asia/Tokyo'')
     = Inr (Some \<lparr>labels = [js ''Jan 1\<newline>09:00'', js ''Jan 1\<newline>12:00''],
                   dataPoints = [Num 3.33, Num 4]\<rparr>)"
  by (simp add: process3DayData_def emptySeries_def push_pair_def label_estimated_tokyo
      label_predicted_tokyo point_estimated point_predicted)

section \<open>The claims on the three-day parser and the controller\<close>

text \<open>
  Claim C1. \<open>fetch3DayForecast\<close> on a decoded feed: the rows after the header whose status
  is \<open>observed\<close> give no pair, and every other row gives exactly one, in the order of the
  feed: the labels are those of the kept rows, the points their Kp read by \<open>parseFloat\<close>,
  position by position. The series is returned whenever the host can label every kept row
  in the current timezone (its time tag is a date, the zone is known, and the formatter
  gives the four parts).
\<close>

theorem feed_rows_to_pairs:
  assumes "\<forall>e \<in> set (non_observed_rows rawData). returns (entryLabel H (currentTimezone st) e)"
  shows "\<exists>s. fetch3DayForecast H st (Response True (Inr rawData))
                = (st\<lparr>raw3DayData := Some (non_observed_rows rawData)\<rparr>, Some s)
           \<and> map Inr (labels s) = map (entryLabel H (currentTimezone st)) (non_observed_rows rawData)
           \<and> dataPoints s = map entryPoint (non_observed_rows rawData)
           \<and> length (labels s) = length (non_observed_rows rawData)
           \<and> length (dataPoints s) = length (non_observed_rows rawData)
           \<and> list_all (\<lambda>e. idx e 2 \<noteq> Some (js ''observed'')) (non_observed_rows rawData)"
proof -
  from assms obtain s
    where s: "process3DayData H (Some (non_observed_rows rawData)) (currentTimezone st) = Inr (Some s)"
    using process3DayData_returns by blast
  from process3DayData_result [OF s]
  have m: "map Inr (labels s) = map (entryLabel H (currentTimezone st)) (non_observed_rows rawData)"
    and p: "dataPoints s = map entryPoint (non_observed_rows rawData)"
    by simp_all
  from m have "length (map Inr (labels s) :: (exn + jsstring) list) = length (non_observed_rows rawData)"
    by simp
  then have n: "length (labels s) = length (non_observed_rows rawData)"
    by simp
  have o: "list_all (\<lambda>e. idx e 2 \<noteq> Some (js ''observed'')) (non_observed_rows rawData)"
    by (simp add: non_observed_rows_def list_all_iff)
  from fetch3DayForecast_ok [OF s] m p n o show ?thesis
    by auto
qed

theorem feed_rows_to_pairs_witness:
  "non_observed_rows sample_feed = [sample_estimated, sample_predicted]
   \<and> returns (entryLabel ref_host (currentTimezone start_state) sample_estimated)
   \<and> returns (entryLabel ref_host (currentTimezone start_state) sample_predicted)
   \<and> fetch3DayForecast ref_host start_state (Response True (Inr sample_feed))
        = (start_state\<lparr>raw3DayData := Some [sample_estimated, sample_predicted]\<rparr>,
           Some \<lparr>labels = [js ''Jan 1\<newline>00:00'', js ''Jan 1\<newline>03:00''],
                 dataPoints = [Num 3.33, Num 4]\<rparr>)"
proof -
  have h: "\<forall>e \<in> set (non_observed_rows sample_feed).
             returns (entryLabel ref_host (currentTimezone start_state) e)"
    using sample_rows_return by (simp add: start_timezone)
  from feed_rows_to_pairs [OF h] obtain s
    where f: "fetch3DayForecast ref_host start_state (Response True (Inr sample_feed))
                = (start_state\<lparr>raw3DayData := Some (non_observed_rows sample_feed)\<rparr>, Some s)"
      and m: "map Inr (labels s)
                = map (entryLabel ref_host (currentTimezone start_state)) (non_observed_rows sample_feed)"
      and p: "dataPoints s = map entryPoint (non_observed_rows sample_feed)"
    by blast
  from m have "(map Inr (labels s) :: (exn + jsstring) list)
                 = [Inr (js ''Jan 1\<newline>00:00''), Inr (js ''Jan 1\<newline>03:00'')]"
    by (simp add: sample_rows start_timezone label_estimated_utc label_predicted_utc)
  moreover from p have "dataPoints s = [Num 3.33, Num 4]"
    by (simp add: sample_rows point_estimated point_predicted)
  ultimately have "s = \<lparr>labels = [js ''Jan 1\<newline>00:00'', js ''Jan 1\<newline>03:00''],
                        dataPoints = [Num 3.33, Num 4]\<rparr>"
    by (rule series_from_maps)
  with f show ?thesis
    by (simp add: sample_rows start_timezone label_estimated_utc label_predicted_utc returns_Inr)
qed

text \<open>
  Claim C2. Every series that a parser returns has as many labels as points: that of
  \<open>process3DayData\<close>, that of the 27-day parse, and so what the two fetch functions return.
\<close>

theorem series_lengths_agree:
  "(process3DayData H rawData timezone = Inr (Some s) \<longrightarrow> length (labels s) = length (dataPoints s))
   \<and> length (labels (parse27DayText textData)) = length (dataPoints (parse27DayText textData))
   \<and> (snd (fetch3DayForecast H st resp3) = Some s3 \<longrightarrow> length (labels s3) = length (dataPoints s3))
   \<and> (snd (fetch27DayForecast st resp27) = Some s27 \<longrightarrow> length (labels s27) = length (dataPoints s27))"
proof -
  have a: "process3DayData H rawData timezone = Inr (Some s) \<longrightarrow> length (labels s) = length (dataPoints s)"
    using balanced_process3DayData [of H rawData timezone s] by (simp add: balanced_def)
  have b: "length (labels (parse27DayText textData)) = length (dataPoints (parse27DayText textData))"
    using balanced_parse27DayText [of textData] by (simp add: balanced_def)
  have c: "snd (fetch3DayForecast H st resp3) = Some s3 \<longrightarrow> length (labels s3) = length (dataPoints s3)"
    using fetch3_result [of H st resp3 s3] balanced_process3DayData by (auto simp: balanced_def)
  have d: "snd (fetch27DayForecast st resp27) = Some s27 \<longrightarrow> length (labels s27) = length (dataPoints s27)"
    using fetch27_result [of st resp27 s27] balanced_parse27DayText by (auto simp: balanced_def)
  from a b c d show ?thesis by blast
qed

theorem series_lengths_agree_witness:
  "process3DayData ref_host (Some [sample_estimated, sample_predicted]) (js ''UTC'')
     = Inr (Some \<lparr>labels = [js ''Jan 1\<newline>00:00'', js ''Jan 1\<newline>03:00''],
                   dataPoints = [Num 3.33, Num 4]\<rparr>)
   \<and> snd (fetch3DayForecast ref_host start_state (Response True (Inr sample_feed)))
       = Some \<lparr>labels = [js ''Jan 1\<newline>00:00'', js ''Jan 1\<newline>03:00''],
                dataPoints = [Num 3.33, Num 4]\<rparr>
   \<and> snd (fetch27DayForecast start_state
              (Response True (Inr (js ''2025 Dec 29     185           5          2''))))
       = Some (parse27DayText (js ''2025 Dec 29     185           5          2''))
   \<and> length (labels (parse27DayText (js ''2025 Dec 29     185           5          2'')))
       = length (dataPoints (parse27DayText (js ''2025 Dec 29     185           5          2'')))"
proof -
  have a: "snd (fetch3DayForecast ref_host start_state (Response True (Inr sample_feed)))
       = Some \<lparr>labels = [js ''Jan 1\<newline>00:00'', js ''Jan 1\<newline>03:00''],
                dataPoints = [Num 3.33, Num 4]\<rparr>"
    using sample_utc
    by (simp add: fetch3DayForecast_ok sample_rows start_timezone)
  have b: "snd (fetch27DayForecast start_state
              (Response True (Inr (js ''2025 Dec 29     185           5          2''))))
       = Some (parse27DayText (js ''2025 Dec 29     185           5          2''))"
    by (simp add: fetch27DayForecast_def)
  from sample_utc a b
    series_lengths_agree [of ref_host "Some [sample_estimated, sample_predicted]" "js ''UTC''"
      "\<lparr>labels = [js ''Jan 1\<newline>00:00'', js ''Jan 1\<newline>03:00''], dataPoints = [Num 3.33, Num 4]\<rparr>"
      "js ''2025 Dec 29     185           5          2''"]
  show ?thesis by blast
qed

text \<open>
  Claim C6. For the single entry \<open>["2025-01-01 00:00:00", "3.33", "estimated"]\<close> and the
  timezone \<open>UTC\<close>, \<open>process3DayData\<close> returns one label, \<open>Jan 1\<close>, a line feed and
  \<open>00:00\<close>, and one point, 3.33, on every host whose \<open>Date\<close> reads the time tag followed
  by \<open>Z\<close> as an instant and whose formatter for UTC reports there the month \<open>Jan\<close>, the
  day \<open>1\<close>, the hour \<open>00\<close> and the minute \<open>00\<close>.
\<close>

theorem three_day_scenario:
  assumes "Date_parse H (js ''2025-01-01 00:00:00Z'') = Some t"
    and "DateTimeFormat H (js ''UTC'') = Some formatter"
    and "find_part (formatter t) (js ''month'') = Inr (js ''Jan'')"
    and "find_part (formatter t) (js ''day'') = Inr (js ''1'')"
    and "find_part (formatter t) (js ''hour'') = Inr (js ''00'')"
    and "find_part (formatter t) (js ''minute'') = Inr (js ''00'')"
  shows "process3DayData H (Some [[js ''2025-01-01 00:00:00'', js ''3.33'', js ''estimated'']])
           (js ''UTC'')
         = Inr (Some \<lparr>labels = [js ''Jan 1\<newline>00:00''], dataPoints = [Num 3.33]\<rparr>)"
proof -
  let ?e = "[js ''2025-01-01 00:00:00'', js ''3.33'', js ''estimated'']"
  have lab: "js ''Jan'' @ js '' '' @ js ''1'' @ js ''\<newline>'' @ js ''00'' @ js '':'' @ js ''00''
               = js ''Jan 1\<newline>00:00''"
    by (simp add: js_def)
  have "entryLabel H (js ''UTC'') ?e = Inr (js ''Jan 1\<newline>00:00'')"
    using assms lab by (simp add: entryLabel_def sample_tag bind_exn_def)
  moreover have "entryPoint ?e = Num 3.33"
    using parseFloat_sample by (simp add: entryPoint_def idx_def to_string_def)
  ultimately show ?thesis
    by (simp add: process3DayData_def push_pair_def emptySeries_def)
qed

theorem three_day_scenario_witness:
  "Date_parse ref_host (js ''2025-01-01 00:00:00Z'') = Some 1735689600000
   \<and> DateTimeFormat ref_host (js ''UTC'') = Some (ref_formatToParts 0)
   \<and> find_part (ref_formatToParts 0 1735689600000) (js ''month'') = Inr (js ''Jan'')
   \<and> find_part (ref_formatToParts 0 1735689600000) (js ''day'') = Inr (js ''1'')
   \<and> find_part (ref_formatToParts 0 1735689600000) (js ''hour'') = Inr (js ''00'')
   \<and> find_part (ref_formatToParts 0 1735689600000) (js ''minute'') = Inr (js ''00'')
   \<and> process3DayData ref_host (Some [[js ''2025-01-01 00:00:00'', js ''3.33'', js ''estimated'']])
           (js ''UTC'')
         = Inr (Some \<lparr>labels = [js ''Jan 1\<newline>00:00''], dataPoints = [Num 3.33]\<rparr>)"
proof -
  have d: "Date_parse ref_host (js ''2025-01-01 00:00:00Z'') = Some 1735689600000"
    using sample_date by (simp add: ref_host_def)
  note r = three_day_scenario [OF d sample_zone sample_find]
  from d sample_zone sample_find r show ?thesis
    by (intro conjI)
qed

text \<open>
  Claim C7. The same entries under two timezones: whenever \<open>process3DayData\<close> returns a
  series under each, the two have the same number of pairs, each pair comes from the entry
  at its position, and the points are identical; only the labels depend on the zone. Both
  runs return a series when the host can label every entry in both zones.
\<close>

theorem timezone_changes_labels_only:
  "(process3DayData H (Some raw) tz1 = Inr (Some s1)
      \<and> process3DayData H (Some raw) tz2 = Inr (Some s2)
    \<longrightarrow> length (labels s1) = length (labels s2)
        \<and> length (dataPoints s1) = length (dataPoints s2)
        \<and> dataPoints s1 = dataPoints s2
        \<and> dataPoints s1 = map entryPoint raw
        \<and> map Inr (labels s1) = map (entryLabel H tz1) raw
        \<and> map Inr (labels s2) = map (entryLabel H tz2) raw)
   \<and> ((\<forall>e \<in> set raw. returns (entryLabel H tz1 e) \<and> returns (entryLabel H tz2 e))
    \<longrightarrow> (\<exists>s1 s2. process3DayData H (Some raw) tz1 = Inr (Some s1)
                 \<and> process3DayData H (Some raw) tz2 = Inr (Some s2)))"
proof -
  have a: "length (labels s1) = length (labels s2)
        \<and> length (dataPoints s1) = length (dataPoints s2)
        \<and> dataPoints s1 = dataPoints s2
        \<and> dataPoints s1 = map entryPoint raw
        \<and> map Inr (labels s1) = map (entryLabel H tz1) raw
        \<and> map Inr (labels s2) = map (entryLabel H tz2) raw"
    if r1: "process3DayData H (Some raw) tz1 = Inr (Some s1)"
      and r2: "process3DayData H (Some raw) tz2 = Inr (Some s2)"
  proof -
    note f1 = process3DayData_result [OF r1] and f2 = process3DayData_result [OF r2]
    from f1 have "length (map Inr (labels s1) :: (exn + jsstring) list) = length raw" by simp
    moreover from f2 have "length (map Inr (labels s2) :: (exn + jsstring) list) = length raw" by simp
    ultimately have "length (labels s1) = length (labels s2)" by simp
    with f1 f2 show ?thesis by simp
  qed
  have b: "\<exists>s1 s2. process3DayData H (Some raw) tz1 = Inr (Some s1)
                 \<and> process3DayData H (Some raw) tz2 = Inr (Some s2)"
    if h: "\<forall>e \<in> set raw. returns (entryLabel H tz1 e) \<and> returns (entryLabel H tz2 e)"
  proof -
    from h have "\<forall>e \<in> set raw. returns (entryLabel H tz1 e)" by blast
    then obtain s1 where "process3DayData H (Some raw) tz1 = Inr (Some s1)"
      using process3DayData_returns by blast
    moreover from h have "\<forall>e \<in> set raw. returns (entryLabel H tz2 e)" by blast
    then obtain s2 where "process3DayData H (Some raw) tz2 = Inr (Some s2)"
      using process3DayData_returns by blast
    ultimately show ?thesis by blast
  qed
  from a b show ?thesis by blast
qed

theorem timezone_changes_labels_only_witness:
  "process3DayData ref_host (Some [sample_estimated, sample_predicted]) (js ''UTC'')
     = Inr (Some \<lparr>labels = [js ''Jan 1\<newline>00:00'', js ''Jan 1\<newline>03:00''],
                   dataPoints = [Num 3.33, Num 4]\<rparr>)
   \<and> process3DayData ref_host (Some [sample_estimated, sample_predicted]) (js ''Asia/Tokyo'')
     = Inr (Some \<lparr>labels = [js ''Jan 1\<newline>09:00'', js ''Jan 1\<newline>12:00''],
                   dataPoints = [Num 3.33, Num 4]\<rparr>)
   \<and> [Num 3.33, Num 4] = map entryPoint [sample_estimated, sample_predicted]
   \<and> returns (entryLabel ref_host (js ''UTC'') sample_estimated)
   \<and> returns (entryLabel ref_host (js ''Asia/Tokyo'') sample_estimated)
   \<and> returns (entryLabel ref_host (js ''UTC'') sample_predicted)
   \<and> returns (entryLabel ref_host (js ''Asia/Tokyo'') sample_predicted)
   \<and> (\<exists>s1 s2. process3DayData ref_host (Some [sample_estimated, sample_predicted]) (js ''UTC'')
                 = Inr (Some s1)
              \<and> process3DayData ref_host (Some [sample_estimated, sample_predicted])
                  (js ''Asia/Tokyo'') = Inr (Some s2))"
proof -
  let ?raw = "[sample_estimated, sample_predicted]"
  let ?s1 = "\<lparr>labels = [js ''Jan 1\<newline>00:00'', js ''Jan 1\<newline>03:00''],
              dataPoints = [Num 3.33, Num 4]\<rparr>"
  let ?s2 = "\<lparr>labels = [js ''Jan 1\<newline>09:00'', js ''Jan 1\<newline>12:00''],
              dataPoints = [Num 3.33, Num 4]\<rparr>"
  note t = timezone_changes_labels_only
    [of ref_host ?raw "js ''UTC''" ?s1 "js ''Asia/Tokyo''" ?s2]
  have r: "returns (entryLabel ref_host (js ''UTC'') sample_estimated)"
    "returns (entryLabel ref_host (js ''Asia/Tokyo'') sample_estimated)"
    "returns (entryLabel ref_host (js ''UTC'') sample_predicted)"
    "returns (entryLabel ref_host (js ''Asia/Tokyo'') sample_predicted)"
    by (simp_all add: label_estimated_utc label_predicted_utc label_estimated_tokyo
        label_predicted_tokyo returns_Inr)
  from t sample_utc sample_tokyo
  have a: "[Num 3.33, Num 4] = map entryPoint ?raw"
    by simp
  from r have "\<forall>e \<in> set ?raw. returns (entryLabel ref_host (js ''UTC'') e)
                 \<and> returns (entryLabel ref_host (js ''Asia/Tokyo'') e)"
    by simp
  with t have b: "\<exists>s1 s2. process3DayData ref_host (Some ?raw) (js ''UTC'') = Inr (Some s1)
              \<and> process3DayData ref_host (Some ?raw) (js ''Asia/Tokyo'') = Inr (Some s2)"
    by blast
  from sample_utc sample_tokyo a r b show ?thesis
    by (intro conjI)
qed

text \<open>
  Claim C9, as the code has it. The listener of the timezone selector first stores the new
  timezone. With raw three-day entries cached (and labelled by the host in the new zone) it
  then recomputes the three-day series under the new timezone, stores it, and in ThreeDay
  mode redraws the chart from it, with one \<open>update()\<close>; in the other mode the chart is left
  alone. With no raw entries cached, storing the new timezone is all it does: every other
  global and the chart stay as they are.
\<close>

theorem timezoneChange_effect:
  "(raw3DayData st = Some raw \<and> (\<forall>e \<in> set raw. returns (entryLabel H v e)) \<longrightarrow>
      (\<exists>s. process3DayData H (Some raw) v = Inr (Some s)
         \<and> timezoneChange H v st
             = (st\<lparr>currentTimezone := v, threeDayData := Some s,
                    the_chart :=
                      (if currentMode st = ThreeDay
                       then \<lparr>chart_labels = labels s, chart_data = dataPoints s,
                             backgroundColor = map getKpColor (dataPoints s),
                             updates = updates (the_chart st) + 1\<rparr>
                       else the_chart st)\<rparr>,
                None)))
   \<and> (raw3DayData st = None \<longrightarrow> timezoneChange H v st = (st\<lparr>currentTimezone := v\<rparr>, None))"
proof -
  have a: "\<exists>s. process3DayData H (Some raw) v = Inr (Some s)
         \<and> timezoneChange H v st
             = (st\<lparr>currentTimezone := v, threeDayData := Some s,
                    the_chart :=
                      (if currentMode st = ThreeDay
                       then \<lparr>chart_labels = labels s, chart_data = dataPoints s,
                             backgroundColor = map getKpColor (dataPoints s),
                             updates = updates (the_chart st) + 1\<rparr>
                       else the_chart st)\<rparr>,
                None)"
    if c: "raw3DayData st = Some raw" and r: "\<forall>e \<in> set raw. returns (entryLabel H v e)"
  proof -
    from r obtain s where s: "process3DayData H (Some raw) v = Inr (Some s)"
      using process3DayData_returns by blast
    with c have "timezoneChange H v st
             = (st\<lparr>currentTimezone := v, threeDayData := Some s,
                    the_chart :=
                      (if currentMode st = ThreeDay
                       then \<lparr>chart_labels = labels s, chart_data = dataPoints s,
                             backgroundColor = map getKpColor (dataPoints s),
                             updates = updates (the_chart st) + 1\<rparr>
                       else the_chart st)\<rparr>,
                None)"
      by (simp add: timezoneChange_def updateChart_def Let_def)
    with s show ?thesis by blast
  qed
  have b: "timezoneChange H v st = (st\<lparr>currentTimezone := v\<rparr>, None)"
    if "raw3DayData st = None"
    using that by (simp add: timezoneChange_def)
  from a b show ?thesis by blast
qed

theorem timezoneChange_effect_witness:
  "raw3DayData loaded_state = Some [sample_estimated, sample_predicted]
   \<and> returns (entryLabel ref_host (js ''Asia/Tokyo'') sample_estimated)
   \<and> returns (entryLabel ref_host (js ''Asia/Tokyo'') sample_predicted)
   \<and> currentMode loaded_state = ThreeDay
   \<and> timezoneChange ref_host (js ''Asia/Tokyo'') loaded_state
       = (loaded_state
            \<lparr>currentTimezone := js ''Asia/Tokyo'',
             threeDayData := Some \<lparr>labels = [js ''Jan 1\<newline>09:00'', js ''Jan 1\<newline>12:00''],
                                    dataPoints = [Num 3.33, Num 4]\<rparr>,
             the_chart := \<lparr>chart_labels = [js ''Jan 1\<newline>09:00'', js ''Jan 1\<newline>12:00''],
                            chart_data = [Num 3.33, Num 4],
                            backgroundColor = [quiet_color, active_color],
                            updates = 2\<rparr>\<rparr>,
          None)
   \<and> raw3DayData start_state = None
   \<and> timezoneChange ref_host (js ''Asia/Tokyo'') start_state
       = (start_state\<lparr>currentTimezone := js ''Asia/Tokyo''\<rparr>, None)"
proof -
  let ?raw = "[sample_estimated, sample_predicted]"
  note t1 = timezoneChange_effect [of loaded_state ?raw ref_host "js ''Asia/Tokyo''"]
  note t2 = timezoneChange_effect [of start_state ?raw ref_host "js ''Asia/Tokyo''"]
  have a: "raw3DayData loaded_state = Some ?raw"
    by (simp add: loaded_state_def)
  have r: "returns (entryLabel ref_host (js ''Asia/Tokyo'') sample_estimated)"
    "returns (entryLabel ref_host (js ''Asia/Tokyo'') sample_predicted)"
    by (simp_all add: label_estimated_tokyo label_predicted_tokyo returns_Inr)
  have m: "currentMode loaded_state = ThreeDay"
    by (simp add: loaded_state_def start_state_def)
  have u: "updates (the_chart loaded_state) = 1"
    by (simp add: loaded_state_def start_state_def)
  have k: "getKpColor (Num 3.33) = quiet_color" "getKpColor (Num 4) = active_color"
    by (simp_all add: getKpColor_def)
  from r have "\<forall>e \<in> set ?raw. returns (entryLabel ref_host (js ''Asia/Tokyo'') e)"
    by simp
  with t1 a obtain s where s: "process3DayData ref_host (Some ?raw) (js ''Asia/Tokyo'') = Inr (Some s)"
    and e: "timezoneChange ref_host (js ''Asia/Tokyo'') loaded_state
             = (loaded_state\<lparr>currentTimezone := js ''Asia/Tokyo'', threeDayData := Some s,
                    the_chart :=
                      (if currentMode loaded_state = ThreeDay
                       then \<lparr>chart_labels = labels s, chart_data = dataPoints s,
                             backgroundColor = map getKpColor (dataPoints s),
                             updates = updates (the_chart loaded_state) + 1\<rparr>
                       else the_chart loaded_state)\<rparr>,
                None)"
    by blast
  from s sample_tokyo
  have "s = \<lparr>labels = [js ''Jan 1\<newline>09:00'', js ''Jan 1\<newline>12:00''],
             dataPoints = [Num 3.33, Num 4]\<rparr>"
    by simp
  with e m u k have b: "timezoneChange ref_host (js ''Asia/Tokyo'') loaded_state
       = (loaded_state
            \<lparr>currentTimezone := js ''Asia/Tokyo'',
             threeDayData := Some \<lparr>labels = [js ''Jan 1\<newline>09:00'', js ''Jan 1\<newline>12:00''],
                                    dataPoints = [Num 3.33, Num 4]\<rparr>,
             the_chart := \<lparr>chart_labels = [js ''Jan 1\<newline>09:00'', js ''Jan 1\<newline>12:00''],
                            chart_data = [Num 3.33, Num 4],
                            backgroundColor = [quiet_color, active_color],
                            updates = 2\<rparr>\<rparr>,
          None)"
    by simp
  have c: "raw3DayData start_state = None"
    by (simp add: start_state_def)
  with t2 have d: "timezoneChange ref_host (js ''Asia/Tokyo'') start_state
       = (start_state\<lparr>currentTimezone := js ''Asia/Tokyo''\<rparr>, None)"
    by blast
  from a r m b c d show ?thesis
    by (intro conjI)
qed

text \<open>
  In the start state no raw entries are cached, and the listener still changes a global:
  the current timezone. So the listener is not without effect there.
\<close>

theorem timezoneChange_without_data_counterexample:
  "raw3DayData start_state = None
   \<and> currentTimezone (fst (timezoneChange ref_host (js ''Asia/Tokyo'') start_state))
       = js ''Asia/Tokyo''
   \<and> currentTimezone start_state = js ''UTC''
   \<and> fst (timezoneChange ref_host (js ''Asia/Tokyo'') start_state) \<noteq> start_state"
proof -
  have a: "raw3DayData start_state = None"
    by (simp add: start_state_def)
  then have b: "currentTimezone (fst (timezoneChange ref_host (js ''Asia/Tokyo'') start_state))
       = js ''Asia/Tokyo''"
    by (simp add: timezoneChange_def)
  have c: "currentTimezone start_state = js ''UTC''"
    by (simp add: start_state_def)
  have d: "js ''Asia/Tokyo'' \<noteq> js ''UTC''"
    by (simp add: js_def)
  from b c d have "fst (timezoneChange ref_host (js ''Asia/Tokyo'') start_state) \<noteq> start_state"
    by auto
  with a b c show ?thesis by (intro conjI)
qed

end
